theory Spec2Isabelle
  imports Complex_Main
begin

section \<open>JavaScript values\<close>

text \<open>
  The front end is written in JavaScript and handles whatever the server sends, parsed by
  \<^verbatim>\<open>JSON.parse\<close>. A value is therefore a JSON value; \<open>JUndefined\<close> is what reading a
  missing property gives. An object is the list of its own properties (a name appears at
  most once in what \<^verbatim>\<open>JSON.parse\<close> returns, and \<open>map_of\<close> reads it). A number is taken
  as the real number it denotes.
\<close>

datatype json =
    JUndefined
  | JNull
  | JBool bool
  | JNum real
  | JStr string
  | JArr "json list"
  | JObj "(string \<times> json) list"

datatype js_error = SyntaxError | TypeError | Unmodelled

text \<open>
  \<open>Unmodelled\<close> is not an error of the program: it marks the few places where the result
  depends on a coercion of the language that this development does not evaluate
  (\<^verbatim>\<open>ToNumber\<close> of a string, array or object; a lookup by a computed name in a value
  that is no object, or by a name that is no string).
\<close>

text \<open>Truthiness, as \<^verbatim>\<open>if (v)\<close>, \<^verbatim>\<open>!v\<close>, \<^verbatim>\<open>a && b\<close> and \<^verbatim>\<open>a || b\<close> test it.\<close>

fun truthy :: "json \<Rightarrow> bool" where
  "truthy JUndefined = False"
| "truthy JNull = False"
| "truthy (JBool b) = b"
| "truthy (JNum n) = (n \<noteq> 0)"
| "truthy (JStr s) = (s \<noteq> [])"
| "truthy (JArr xs) = True"
| "truthy (JObj kvs) = True"

text \<open>Reading a property of \<^verbatim>\<open>null\<close> or \<^verbatim>\<open>undefined\<close> raises a TypeError.\<close>

fun nullish :: "json \<Rightarrow> bool" where
  "nullish JUndefined = True"
| "nullish JNull = True"
| "nullish v = False"

text \<open>
  \<open>get_prop v k\<close> is \<^verbatim>\<open>v.k\<close> for a value that is not nullish and one of the names that
  the code writes out (\<^verbatim>\<open>type\<close>, \<^verbatim>\<open>data\<close>, \<^verbatim>\<open>model\<close>, \<^verbatim>\<open>length\<close> and so on): an own
  property of an object, the \<^verbatim>\<open>length\<close> of an array or a string, and \<^verbatim>\<open>undefined\<close>
  otherwise. None of these names is a member of a prototype, so nothing is inherited. The
  one lookup by a computed name, \<^verbatim>\<open>labelToModel[label]\<close>, is \<open>lookup_label\<close> below.
\<close>

fun get_prop :: "json \<Rightarrow> string \<Rightarrow> json" where
  "get_prop (JObj kvs) k = (case map_of kvs k of None \<Rightarrow> JUndefined | Some v \<Rightarrow> v)"
| "get_prop (JArr xs) k = (if k = ''length'' then JNum (real (length xs)) else JUndefined)"
| "get_prop (JStr s) k = (if k = ''length'' then JNum (real (length s)) else JUndefined)"
| "get_prop v k = JUndefined"


fun isArray :: "json \<Rightarrow> bool" where
  "isArray (JArr xs) = True"
| "isArray v = False"

section \<open>App.jsx: the conversation state and the send loop\<close>

text \<open>
  A message is an object whose fields the code reads by name; a field that is not there
  reads as \<open>JUndefined\<close>. The user message \<^verbatim>\<open>{ role: 'user', content }\<close> has only the first
  two.
\<close>

record message =
  role :: json
  content :: json
  mode :: json
  stage1 :: json
  stage2 :: json
  stage3 :: json
  hybrid_phase1 :: json
  hybrid_phase2 :: json
  hybrid_phase3 :: json
  hybrid_phase4 :: json
  metadata :: json

record conversation =
  title :: json
  messages :: "message list"

datatype effect = LoadConversations | StreamError json | SendError js_error

text \<open>
  The state that \<^verbatim>\<open>handleSendMessage\<close> works on: its local variable
  \<^verbatim>\<open>assistantMessage\<close>, the React state \<^verbatim>\<open>currentConversation\<close> (each
  \<^verbatim>\<open>setCurrentConversation(prev => ...)\<close> is applied to it in the order of the calls), and
  the calls of \<^verbatim>\<open>loadConversations\<close> and \<^verbatim>\<open>console.error\<close> made so far.
\<close>

record send_state =
  assistantMessage :: message
  currentConversation :: conversation
  effects :: "effect list"

definition user_message :: "json \<Rightarrow> message" where
  "user_message c =
     \<lparr>role = JStr ''user'', content = c, mode = JUndefined,
      stage1 = JUndefined, stage2 = JUndefined, stage3 = JUndefined,
      hybrid_phase1 = JUndefined, hybrid_phase2 = JUndefined,
      hybrid_phase3 = JUndefined, hybrid_phase4 = JUndefined, metadata = JUndefined\<rparr>"

text \<open>The object literal of lines 71-82 and 86-97.\<close>

definition empty_assistant :: "json \<Rightarrow> message" where
  "empty_assistant m =
     \<lparr>role = JStr ''assistant'', content = JUndefined, mode = m,
      stage1 = JArr [], stage2 = JArr [], stage3 = JNull,
      hybrid_phase1 = JArr [], hybrid_phase2 = JArr [],
      hybrid_phase3 = JNull, hybrid_phase4 = JNull, metadata = JObj []\<rparr>"

text \<open>
  The updater shared by the seven completion branches:
  \<^verbatim>\<open>updatedMessages[updatedMessages.length - 1] = { ...assistantMessage }\<close>.
  On an empty array the assignment sets the property \<^verbatim>\<open>-1\<close> and no element, and
  \<open>xs[length xs - 1 := x]\<close> leaves \<open>[]\<close> as it is.
\<close>

definition put_assistant :: "send_state \<Rightarrow> send_state" where
  "put_assistant s =
     (let prev = currentConversation s;
          updatedMessages = messages prev
      in s\<lparr>currentConversation :=
             prev\<lparr>messages :=
               updatedMessages[length updatedMessages - 1 := assistantMessage s]\<rparr>\<rparr>)"

datatype control = Next | Break | Throw js_error | RenderCrash

text \<open>
  The body of the \<^verbatim>\<open>for\<close> loop for one parsed \<^verbatim>\<open>data\<close> (lines 127-193).
  \<^verbatim>\<open>data.type\<close> raises a TypeError when \<^verbatim>\<open>data\<close> is \<^verbatim>\<open>null\<close>. In the
  \<^verbatim>\<open>title_complete\<close> branch \<^verbatim>\<open>data.data.title\<close> is read inside the updater, which
  React runs outside the \<^verbatim>\<open>try\<close> block: when it raises, the update is lost and the
  component tree is taken down, after \<^verbatim>\<open>loadConversations\<close> was called. The model ends
  the run there (\<open>RenderCrash\<close>).
\<close>

definition handle_event :: "json \<Rightarrow> send_state \<Rightarrow> control \<times> send_state" where
  "handle_event data s =
    (if nullish data then (Throw TypeError, s)
     else if get_prop data ''type'' = JStr ''stage1_complete'' then
       (Next, put_assistant
          (s\<lparr>assistantMessage := (assistantMessage s)\<lparr>stage1 := get_prop data ''data''\<rparr>\<rparr>))
     else if get_prop data ''type'' = JStr ''stage2_complete'' then
       (Next, put_assistant
          (s\<lparr>assistantMessage :=
               (assistantMessage s)\<lparr>stage2 := get_prop data ''data'',
                                     metadata := get_prop data ''metadata''\<rparr>\<rparr>))
     else if get_prop data ''type'' = JStr ''stage3_complete'' then
       (Next, put_assistant
          (s\<lparr>assistantMessage := (assistantMessage s)\<lparr>stage3 := get_prop data ''data''\<rparr>\<rparr>))
     else if get_prop data ''type'' = JStr ''hybrid_phase1_complete'' then
       (Next, put_assistant
          (s\<lparr>assistantMessage :=
               (assistantMessage s)\<lparr>hybrid_phase1 := get_prop data ''data''\<rparr>\<rparr>))
     else if get_prop data ''type'' = JStr ''hybrid_phase2_complete'' then
       (Next, put_assistant
          (s\<lparr>assistantMessage :=
               (assistantMessage s)\<lparr>hybrid_phase2 := get_prop data ''data''\<rparr>\<rparr>))
     else if get_prop data ''type'' = JStr ''hybrid_phase3_complete'' then
       (Next, put_assistant
          (s\<lparr>assistantMessage :=
               (assistantMessage s)\<lparr>hybrid_phase3 := get_prop data ''data''\<rparr>\<rparr>))
     else if get_prop data ''type'' = JStr ''hybrid_phase4_complete'' then
       (Next, put_assistant
          (s\<lparr>assistantMessage :=
               (assistantMessage s)\<lparr>hybrid_phase4 := get_prop data ''data''\<rparr>\<rparr>))
     else if get_prop data ''type'' = JStr ''title_complete'' then
       (if nullish (get_prop data ''data'')
        then (RenderCrash, s\<lparr>effects := effects s @ [LoadConversations]\<rparr>)
        else (Next,
              s\<lparr>currentConversation :=
                   (currentConversation s)\<lparr>title := get_prop (get_prop data ''data'') ''title''\<rparr>,
                 effects := effects s @ [LoadConversations]\<rparr>))
     else if get_prop data ''type'' = JStr ''complete'' then
       (Next, s\<lparr>effects := effects s @ [LoadConversations]\<rparr>)
     else if get_prop data ''type'' = JStr ''error'' then
       (Break, s\<lparr>effects := effects s @ [StreamError (get_prop data ''message'')]\<rparr>)
     else (Next, s))"

text \<open>\<^verbatim>\<open>chunk.split('\n')\<close>: the pieces between the line feeds, one more than there are line feeds.\<close>

fun split_lines :: "string \<Rightarrow> string list" where
  "split_lines [] = [[]]"
| "split_lines (c # cs) =
     (if c = CHR 0x0A then [] # split_lines cs
      else (case split_lines cs of
              [] \<Rightarrow> [[c]]
            | l # ls \<Rightarrow> (c # l) # ls))"

definition startsWith :: "string \<Rightarrow> string \<Rightarrow> bool" where
  "startsWith s p = (take (length p) s = p)"

text \<open>
  The \<^verbatim>\<open>for (const line of lines)\<close> loop (lines 123-195). \<^verbatim>\<open>JSON.parse\<close> is the
  parameter \<open>parse\<close>; \<open>None\<close> is its SyntaxError. The loop ends with \<open>Next\<close> when the lines
  are used up, with \<open>Break\<close> at the \<^verbatim>\<open>break\<close> of the \<^verbatim>\<open>error\<close> branch, and with the
  exception otherwise.
\<close>

fun for_lines :: "(string \<Rightarrow> json option) \<Rightarrow> string list \<Rightarrow> send_state \<Rightarrow> control \<times> send_state" where
  "for_lines parse [] s = (Next, s)"
| "for_lines parse (line # lines) s =
     (if startsWith line ''data: '' then
        (case parse (drop 6 line) of
           None \<Rightarrow> (Throw SyntaxError, s)
         | Some data \<Rightarrow>
             (case handle_event data s of
                (Next, s') \<Rightarrow> for_lines parse lines s'
              | (c, s') \<Rightarrow> (c, s')))
      else for_lines parse lines s)"

text \<open>
  The \<^verbatim>\<open>while (true)\<close> loop (lines 115-196) over the chunks that \<^verbatim>\<open>reader.read()\<close>
  yields before \<^verbatim>\<open>done\<close>, each already decoded. The \<^verbatim>\<open>break\<close> of line 192 leaves the
  \<^verbatim>\<open>for\<close> loop only: the \<^verbatim>\<open>while\<close> loop goes on to the next read.
\<close>

fun read_loop :: "(string \<Rightarrow> json option) \<Rightarrow> string list \<Rightarrow> send_state \<Rightarrow> control \<times> send_state" where
  "read_loop parse [] s = (Next, s)"
| "read_loop parse (chunk # chunks) s =
     (case for_lines parse (split_lines chunk) s of
        (Throw e, s') \<Rightarrow> (Throw e, s')
      | (RenderCrash, s') \<Rightarrow> (RenderCrash, s')
      | (c, s') \<Rightarrow> read_loop parse chunks s')"

text \<open>
  The state after lines 66-97: the user message and the placeholder are appended, and the
  local \<^verbatim>\<open>assistantMessage\<close> is a second object with the same fields.
\<close>

definition start_send :: "json \<Rightarrow> json \<Rightarrow> conversation \<Rightarrow> effect list \<Rightarrow> send_state" where
  "start_send c m prev es =
     \<lparr>assistantMessage = empty_assistant m,
      currentConversation =
        prev\<lparr>messages := messages prev @ [user_message c, empty_assistant m]\<rparr>,
      effects = es\<rparr>"

text \<open>
  \<^verbatim>\<open>handleSendMessage(content, mode = 'council')\<close>. \<open>response\<close> is what \<^verbatim>\<open>fetch\<close> gives:
  an exception, or the chunks of the body. The \<^verbatim>\<open>catch\<close> block logs the exception and
  the function returns. The result is the React state and the effects.
\<close>

definition handleSendMessage ::
  "(string \<Rightarrow> json option) \<Rightarrow> (js_error + string list) \<Rightarrow> json \<Rightarrow> json \<Rightarrow> json \<Rightarrow>
     conversation \<times> effect list \<Rightarrow> conversation \<times> effect list" where
  "handleSendMessage parse response currentConversationId c mode_arg st =
     (if \<not> truthy currentConversationId then st
      else
        (let m = (if mode_arg = JUndefined then JStr ''council'' else mode_arg);
             s0 = start_send c m (fst st) (snd st)
         in case response of
              Inl e \<Rightarrow> (currentConversation s0, effects s0 @ [SendError e])
            | Inr chunks \<Rightarrow>
                (case read_loop parse chunks s0 of
                   (Throw e, s') \<Rightarrow> (currentConversation s', effects s' @ [SendError e])
                 | (c', s') \<Rightarrow> (currentConversation s', effects s'))))"

text \<open>The event types that \<^verbatim>\<open>handleSendMessage\<close> has a branch for.\<close>

definition handled_types :: "string list" where
  "handled_types =
     [''stage1_complete'', ''stage2_complete'', ''stage3_complete'',
      ''hybrid_phase1_complete'', ''hybrid_phase2_complete'',
      ''hybrid_phase3_complete'', ''hybrid_phase4_complete'',
      ''title_complete'', ''complete'', ''error'']"

text \<open>The completion events of the two protocols, as the branches name them.\<close>

definition council_types :: "string list" where
  "council_types = [''stage1_complete'', ''stage2_complete'', ''stage3_complete'']"

definition hybrid_types :: "string list" where
  "hybrid_types =
     [''hybrid_phase1_complete'', ''hybrid_phase2_complete'',
      ''hybrid_phase3_complete'', ''hybrid_phase4_complete'']"

text \<open>The fields of one protocol still hold what the placeholder gave them.\<close>

definition council_empty :: "message \<Rightarrow> bool" where
  "council_empty m = (stage1 m = JArr [] \<and> stage2 m = JArr [] \<and> stage3 m = JNull)"

definition hybrid_empty :: "message \<Rightarrow> bool" where
  "hybrid_empty m =
     (hybrid_phase1 m = JArr [] \<and> hybrid_phase2 m = JArr [] \<and>
      hybrid_phase3 m = JNull \<and> hybrid_phase4 m = JNull)"

text \<open>
  The \<^verbatim>\<open>data.type\<close> that a line of a chunk carries into the branches, \<open>JUndefined\<close> when
  the line carries none.
\<close>

definition line_type :: "(string \<Rightarrow> json option) \<Rightarrow> string \<Rightarrow> json" where
  "line_type parse line =
     (if startsWith line ''data: '' then
        (case parse (drop 6 line) of
           None \<Rightarrow> JUndefined
         | Some data \<Rightarrow> if nullish data then JUndefined else get_prop data ''type'')
      else JUndefined)"

text \<open>
  The last message of the conversation is the copy of \<^verbatim>\<open>assistantMessage\<close> that the
  latest update stored, after the messages \<open>earlier\<close>.
\<close>

definition in_sync :: "message list \<Rightarrow> send_state \<Rightarrow> bool" where
  "in_sync earlier s = (messages (currentConversation s) = earlier @ [assistantMessage s])"

section \<open>What a component returns\<close>

text \<open>
  A component returns a tree of React elements. \<open>El tag className children\<close> is an element
  (a component such as \<^verbatim>\<open>ReactMarkdown\<close> is named by its tag), \<open>Val v\<close> a JavaScript value
  among the children (a text, or the \<^verbatim>\<open>false\<close>, \<^verbatim>\<open>null\<close> or \<^verbatim>\<open>undefined\<close> that a guard
  \<^verbatim>\<open>cond && ...\<close> leaves and React shows nothing for), \<open>ToFixed2 n\<close> the text of
  \<^verbatim>\<open>n.toFixed(2)\<close>, and \<open>Native k\<close> the member \<open>k\<close> of \<^verbatim>\<open>Object.prototype\<close> (a built-in
  function or object, which is no JSON value). Keys, styles and event handlers are left
  out of the tree, and an array among the children is given by its elements. A child
  component is rendered where it stands, with its own state passed as an argument; an
  exception in it fails the render. The tree is what the component returns: what React
  then does with a child (it shows nothing for a function, and rejects an object that is
  no element) is not part of this development.
\<close>

datatype node = El string string "node list" | Val json | ToFixed2 real | Native string

text \<open>\<^verbatim>\<open>xs.map(f)\<close> with an \<open>f\<close> that may raise: the first exception ends the loop.\<close>

fun sequence :: "(js_error + 'a) list \<Rightarrow> js_error + 'a list" where
  "sequence [] = Inr []"
| "sequence (x # xs) =
     (case x of
        Inl e \<Rightarrow> Inl e
      | Inr v \<Rightarrow> (case sequence xs of Inl e \<Rightarrow> Inl e | Inr vs \<Rightarrow> Inr (v # vs)))"



section \<open>Stage2.jsx\<close>

text \<open>
  The component that \<^verbatim>\<open>ChatInterface\<close> imports from \<^verbatim>\<open>./Stage2\<close>; its source is in
  \<^verbatim>\<open>src/unnamed/part_000\<close>, and the line numbers below are those of that file.
\<close>



















section \<open>HybridView.jsx\<close>

text \<open>
  The entries of \<^verbatim>\<open>PHASE_CONFIG\<close>. The pictograph that starts each label in the source is
  left out (the text here is ASCII).
\<close>

record phase =
  key :: string
  label :: string
  subtitle :: string
  color :: string
  bg :: string
  border :: string
  multi :: bool

definition PHASE_CONFIG :: "phase list" where
  "PHASE_CONFIG =
     [\<lparr>key = ''hybrid_phase1'', label = ''Phase 1: Socratic'',
       subtitle = ''All models form their initial understanding'',
       color = ''#3b82f6'', bg = ''#eff6ff'', border = ''#bfdbfe'', multi = True\<rparr>,
      \<lparr>key = ''hybrid_phase2'', label = ''Phase 2: Debate'',
       subtitle = ''Models challenge and respond to each other'',
       color = ''#f59e0b'', bg = ''#fffbeb'', border = ''#fde68a'', multi = True\<rparr>,
      \<lparr>key = ''hybrid_phase3'', label = ''Phase 3: Devil's Advocate'',
       subtitle = ''The consensus is challenged head-on'',
       color = ''#ef4444'', bg = ''#fef2f2'', border = ''#fecaca'', multi = False\<rparr>,
      \<lparr>key = ''hybrid_phase4'', label = ''Phase 4: Final Synthesis'',
       subtitle = ''Chairman delivers the definitive answer'',
       color = ''#10b981'', bg = ''#f0fdf4'', border = ''#a7f3d0'', multi = False\<rparr>]"

text \<open>\<^verbatim>\<open>s.split('/').pop()\<close>: what follows the last slash.\<close>

definition last_segment :: "string \<Rightarrow> string" where
  "last_segment s = rev (takeWhile (\<lambda>c. c \<noteq> CHR ''/'') (rev s))"

text \<open>
  The label of one tab of \<^verbatim>\<open>ModelTabs\<close> (line 57):
  \<^verbatim>\<open>r.model.split('/').pop() || r.model\<close>, and its button (lines 52-58). Only a string
  has \<^verbatim>\<open>split\<close>.
\<close>

definition tab_label :: "string \<Rightarrow> string" where
  "tab_label m = (if last_segment m \<noteq> [] then last_segment m else m)"

definition hybrid_tab :: "nat \<Rightarrow> nat \<Rightarrow> string \<Rightarrow> node" where
  "hybrid_tab activeTab i m =
     El ''button'' (''hybrid-tab-btn '' @ (if i = activeTab then ''active'' else ''''))
       [Val (JStr (tab_label m))]"

definition model_tab :: "nat \<Rightarrow> nat \<Rightarrow> json \<Rightarrow> js_error + node" where
  "model_tab activeTab i r =
     (if nullish r then Inl TypeError
      else
        (case get_prop r ''model'' of
           JStr m \<Rightarrow> Inr (hybrid_tab activeTab i m)
         | _ \<Rightarrow> Inl TypeError))"

text \<open>
  The element that \<^verbatim>\<open>ModelTabs\<close> returns (lines 48-67): the bar of tabs, then the
  model and the response of the active record.
\<close>

definition model_tabs_view :: "node list \<Rightarrow> json \<Rightarrow> node" where
  "model_tabs_view tabs active =
     El ''div'' ''hybrid-tabs''
       [El ''div'' ''hybrid-tab-bar'' tabs,
        El ''div'' ''hybrid-tab-content''
          [El ''div'' ''hybrid-model-label'' [Val (get_prop active ''model'')],
           El ''div'' ''hybrid-markdown''
             [El ''ReactMarkdown'' '''' [Val (get_prop active ''response'')]]]]"

text \<open>The component \<^verbatim>\<open>ModelTabs({ responses })\<close> with its state \<^verbatim>\<open>activeTab\<close>.\<close>

definition ModelTabs :: "json \<Rightarrow> nat \<Rightarrow> js_error + node" where
  "ModelTabs responses activeTab =
     (if \<not> truthy responses \<or> get_prop responses ''length'' = JNum 0 then Inr (Val JNull)
      else
        (case responses of
           JArr rs \<Rightarrow>
             (case sequence (map (\<lambda>(i, r). model_tab activeTab i r) (enumerate 0 rs)) of
                Inl e \<Rightarrow> Inl e
              | Inr tabs \<Rightarrow>
                  if activeTab < length rs \<and> \<not> nullish (rs ! activeTab)
                  then Inr (model_tabs_view tabs (rs ! activeTab))
                  else Inl TypeError)
         | _ \<Rightarrow> Inl TypeError))"

text \<open>Lines 74-75 of \<^verbatim>\<open>PhaseBlock\<close>.\<close>

definition isEmpty :: "json \<Rightarrow> bool" where
  "isEmpty data =
     (\<not> truthy data \<or> (isArray data \<and> get_prop data ''length'' = JNum 0) \<or>
      (\<not> isArray data \<and> \<not> truthy (get_prop data ''response'')))"

text \<open>
  The pieces of what \<^verbatim>\<open>PhaseBlock\<close> returns: the spinner (lines 97-100), the one record
  of a phase that is not \<^verbatim>\<open>multi\<close> (lines 104-109), the body (line 95) and the block with
  its header (lines 79-113). The two triangles of the toggle are written by their code
  points.
\<close>

definition loading_view :: node where
  "loading_view =
     El ''div'' ''hybrid-loading''
       [El ''div'' ''hybrid-spinner'' [],
        El ''span'' '''' [Val (JStr ''Models are thinking...'')]]"

definition single_view :: "json \<Rightarrow> node" where
  "single_view data =
     El ''div'' ''''
       [El ''div'' ''hybrid-model-label'' [Val (get_prop data ''model'')],
        El ''div'' ''hybrid-markdown''
          [El ''ReactMarkdown'' '''' [Val (get_prop data ''response'')]]]"

definition phase_body :: "node \<Rightarrow> node" where
  "phase_body inner = El ''div'' ''hybrid-phase-body'' [inner]"

definition phase_block_view :: "phase \<Rightarrow> bool \<Rightarrow> node \<Rightarrow> node" where
  "phase_block_view phase isOpen body =
     El ''div'' ''hybrid-phase-block''
       [El ''button'' ''hybrid-phase-header''
          [El ''span'' ''hybrid-phase-title'' [Val (JStr (label phase))],
           El ''span'' ''hybrid-phase-subtitle'' [Val (JStr (subtitle phase))],
           El ''span'' ''hybrid-phase-toggle''
             [Val (JStr (if isOpen then ''U+25B2'' else ''U+25BC''))]],
        body]"

text \<open>
  The component \<^verbatim>\<open>PhaseBlock({ phase, data, isLoading })\<close> with its state \<^verbatim>\<open>isOpen\<close> and
  the state of the \<^verbatim>\<open>ModelTabs\<close> in it. A closed block has \<^verbatim>\<open>false\<close> for its body.
\<close>

definition PhaseBlock :: "phase \<Rightarrow> json \<Rightarrow> bool \<Rightarrow> bool \<Rightarrow> nat \<Rightarrow> js_error + node" where
  "PhaseBlock phase data isLoading isOpen activeTab =
     (if isEmpty data \<and> \<not> isLoading then Inr (Val JNull)
      else if \<not> isOpen then Inr (phase_block_view phase isOpen (Val (JBool False)))
      else if isLoading \<and> isEmpty data then
        Inr (phase_block_view phase isOpen (phase_body loading_view))
      else if multi phase then
        (case ModelTabs data activeTab of
           Inl e \<Rightarrow> Inl e
         | Inr tabs \<Rightarrow> Inr (phase_block_view phase isOpen (phase_body tabs)))
      else Inr (phase_block_view phase isOpen (phase_body (single_view data))))"

text \<open>\<^verbatim>\<open>message[phase.key]\<close> for the keys that a message has.\<close>

definition message_field :: "message \<Rightarrow> string \<Rightarrow> json" where
  "message_field msg k =
     (if k = ''role'' then role msg
      else if k = ''content'' then content msg
      else if k = ''mode'' then mode msg
      else if k = ''stage1'' then stage1 msg
      else if k = ''stage2'' then stage2 msg
      else if k = ''stage3'' then stage3 msg
      else if k = ''hybrid_phase1'' then hybrid_phase1 msg
      else if k = ''hybrid_phase2'' then hybrid_phase2 msg
      else if k = ''hybrid_phase3'' then hybrid_phase3 msg
      else if k = ''hybrid_phase4'' then hybrid_phase4 msg
      else if k = ''metadata'' then metadata msg
      else JUndefined)"

text \<open>The element that \<^verbatim>\<open>HybridView\<close> returns (lines 118-138), the arrows written in ASCII.\<close>

definition hybrid_view :: "node list \<Rightarrow> node" where
  "hybrid_view blocks =
     El ''div'' ''hybrid-view''
       (El ''div'' ''hybrid-header''
          [El ''span'' ''hybrid-badge'' [Val (JStr ''Debate Mode'')],
           El ''span'' ''hybrid-header-sub''
             [Val (JStr ''Socratic -> Debate -> Devil's Advocate -> Synthesis'')]]
        # blocks)"

text \<open>
  The component \<^verbatim>\<open>HybridView({ message, loadingPhase })\<close>; \<open>isOpen\<close> and \<open>activeTab\<close> give
  the state of the block of each phase.
\<close>

definition HybridView ::
  "message \<Rightarrow> string \<Rightarrow> (string \<Rightarrow> bool) \<Rightarrow> (string \<Rightarrow> nat) \<Rightarrow> js_error + node" where
  "HybridView msg loadingPhase isOpen activeTab =
     (case sequence
             (map (\<lambda>phase.
                     PhaseBlock phase (message_field msg (key phase)) (loadingPhase = key phase)
                       (isOpen (key phase)) (activeTab (key phase)))
                  PHASE_CONFIG) of
        Inl e \<Rightarrow> Inl e
      | Inr blocks \<Rightarrow> Inr (hybrid_view blocks))"

section \<open>ChatInterface.jsx\<close>

text \<open>Lines 25-32.\<close>

definition conversationMode :: "message list \<Rightarrow> json" where
  "conversationMode msgs =
     (case find (\<lambda>m. role m = JStr ''assistant'') msgs of
        None \<Rightarrow> JNull
      | Some firstAssistant \<Rightarrow>
          if truthy (mode firstAssistant) then mode firstAssistant
          else if truthy (stage1 firstAssistant) \<or> truthy (stage2 firstAssistant) \<or>
                  truthy (stage3 firstAssistant) then JStr ''council''
          else JNull)"

definition isLocked :: "message list \<Rightarrow> bool" where
  "isLocked msgs = (conversationMode msgs \<noteq> JNull)"

text \<open>
  The part of the state of the component that the mode selector and the form use. A
  string is the list of its code units, here those below 256.
\<close>

record chat_state =
  input :: string
  isLoading :: bool
  mode :: json
  hybridLoadingPhase :: string
  loadingStage :: string

text \<open>The effect of lines 34-38, run after a render in which \<^verbatim>\<open>conversationMode\<close> changed.\<close>

definition mode_effect :: "message list \<Rightarrow> chat_state \<Rightarrow> chat_state" where
  "mode_effect msgs ui =
     (if truthy (conversationMode msgs) then ui\<lparr>mode := conversationMode msgs\<rparr> else ui)"

text \<open>The \<^verbatim>\<open>onClick\<close> of the button of mode \<open>m\<close> (line 331): \<^verbatim>\<open>!isLocked && setMode(m)\<close>.\<close>

definition click_mode :: "message list \<Rightarrow> json \<Rightarrow> chat_state \<Rightarrow> chat_state" where
  "click_mode msgs m ui = (if \<not> isLocked msgs then ui\<lparr>mode := m\<rparr> else ui)"

text \<open>
  \<^verbatim>\<open>String.prototype.trim\<close> removes white space and line terminators at both ends; below
  256 these are the code units 9 to 13, 32 and 160.
\<close>

definition is_space :: "char \<Rightarrow> bool" where
  "is_space c = (of_char c \<in> {9, 10, 11, 12, 13, 32, 160 :: nat})"

definition trim :: "string \<Rightarrow> string" where
  "trim s = rev (dropWhile is_space (rev (dropWhile is_space s)))"

text \<open>
  \<^verbatim>\<open>handleSubmit\<close> (lines 68-83); \<open>onSendMessage\<close> is the callback that \<^verbatim>\<open>App\<close> passes,
  which works on the state \<open>app\<close> of \<^verbatim>\<open>App\<close>.
\<close>

definition handleSubmit ::
  "(json \<Rightarrow> json \<Rightarrow> 'a \<Rightarrow> 'a) \<Rightarrow> chat_state \<times> 'a \<Rightarrow> chat_state \<times> 'a" where
  "handleSubmit onSendMessage st =
     (let ui = fst st; app = snd st in
      if \<not> truthy (JStr (trim (input ui))) \<or> isLoading ui then st
      else
        (let ui1 = ui\<lparr>isLoading := True\<rparr>;
             ui2 = (if mode ui1 = JStr ''hybrid''
                    then ui1\<lparr>hybridLoadingPhase := ''hybrid_phase1''\<rparr>
                    else ui1\<lparr>loadingStage := ''stage1''\<rparr>);
             app' = onSendMessage (JStr (input ui)) (mode ui) app
         in (ui2\<lparr>input := '''', isLoading := False, loadingStage := '''',
                  hybridLoadingPhase := ''''\<rparr>, app')))"

text \<open>The \<^verbatim>\<open>disabled\<close> of the submit button (line 376).\<close>

definition submit_disabled :: "chat_state \<Rightarrow> bool" where
  "submit_disabled ui = (isLoading ui \<or> \<not> truthy (JStr (trim (input ui))))"

section \<open>Sample inputs\<close>

text \<open>\<^verbatim>\<open>JSON.parse\<close> on the event texts that the examples below send.\<close>

definition sample_parse :: "string \<Rightarrow> json option" where
  \<open>sample_parse =
     map_of
      [(''{"type":"error","message":"boom"}'',
          JObj [(''type'', JStr ''error''), (''message'', JStr ''boom'')]),
       (''{"type":"stage1_start"}'', JObj [(''type'', JStr ''stage1_start'')]),
       (''{"type":"stage1_complete","data":[{"model":"m1","response":"r1"}]}'',
          JObj [(''type'', JStr ''stage1_complete''),
                (''data'', JArr [JObj [(''model'', JStr ''m1''), (''response'', JStr ''r1'')]])]),
       (''{"type":"hybrid_phase1_complete","data":[{"model":"m2","response":"r2"}]}'',
          JObj [(''type'', JStr ''hybrid_phase1_complete''),
                (''data'', JArr [JObj [(''model'', JStr ''m2''), (''response'', JStr ''r2'')]])])]\<close>

definition conv0 :: conversation where
  "conv0 = \<lparr>title = JStr ''New Conversation'', messages = []\<rparr>"





text \<open>Assistant messages, and a state of \<^verbatim>\<open>ChatInterface\<close> with a blank input.\<close>

definition sample_hybrid_message :: message where
  "sample_hybrid_message =
     (empty_assistant (JStr ''hybrid''))
       \<lparr>hybrid_phase1 :=
          JArr [JObj [(''model'', JStr ''openrouter/m1''), (''response'', JStr ''a1'')],
                JObj [(''model'', JStr ''m2''), (''response'', JStr ''a2'')]],
        hybrid_phase2 :=
          JArr [JObj [(''model'', JStr ''m2''), (''response'', JStr ''b2'')]],
        hybrid_phase3 := JObj [(''model'', JStr ''devil''), (''response'', JStr ''c'')],
        hybrid_phase4 := JObj [(''model'', JStr ''chair''), (''response'', JStr ''d'')]\<rparr>"

definition legacy_hybrid_message :: message where
  "legacy_hybrid_message =
     \<lparr>role = JStr ''assistant'', content = JUndefined, mode = JUndefined,
      stage1 = JUndefined, stage2 = JUndefined, stage3 = JUndefined,
      hybrid_phase1 = JArr [JObj [(''model'', JStr ''m1''), (''response'', JStr ''a1'')]],
      hybrid_phase2 = JArr [], hybrid_phase3 = JNull, hybrid_phase4 = JNull,
      metadata = JUndefined\<rparr>"

definition ui0 :: chat_state where
  "ui0 = \<lparr>input = ''   '', isLoading = False, mode = JStr ''council'',
          hybridLoadingPhase = '''', loadingStage = ''''\<rparr>"

section \<open>The send loop: invariant and sample runs\<close>

lemma put_assistant_sync:
  "messages (currentConversation s) = earlier @ [x] \<Longrightarrow>
   put_assistant (s\<lparr>assistantMessage := a\<rparr>) =
     s\<lparr>assistantMessage := a,
       currentConversation := (currentConversation s)\<lparr>messages := earlier @ [a]\<rparr>\<rparr>"
  by (simp add: put_assistant_def Let_def)

lemma in_sync_start: "in_sync (messages prev @ [user_message c]) (start_send c m prev es)"
  by (simp add: in_sync_def start_send_def)

lemma in_sync_handle_event:
  "in_sync earlier s \<Longrightarrow> in_sync earlier (snd (handle_event data s))"
  by (simp add: in_sync_def handle_event_def put_assistant_sync)

lemma in_sync_for_lines:
  "in_sync earlier s \<Longrightarrow> in_sync earlier (snd (for_lines parse ls s))"
proof (induction ls arbitrary: s)
  case Nil
  then show ?case by simp
next
  case (Cons line ls)
  show ?case
  proof (cases "startsWith line ''data: ''")
    case False
    with Cons show ?thesis by simp
  next
    case True
    show ?thesis
    proof (cases "parse (drop 6 line)")
      case None
      with True Cons.prems show ?thesis by simp
    next
      case (Some data)
      obtain c s' where h: "handle_event data s = (c, s')"
        by (cases "handle_event data s")
      with in_sync_handle_event[OF Cons.prems, of data] have s': "in_sync earlier s'"
        by simp
      show ?thesis using True Some h s' Cons.IH[OF s'] by (cases c) simp_all
    qed
  qed
qed

lemma in_sync_read_loop:
  "in_sync earlier s \<Longrightarrow> in_sync earlier (snd (read_loop parse chunks s))"
proof (induction chunks arbitrary: s)
  case Nil
  then show ?case by simp
next
  case (Cons chunk chunks)
  obtain c s' where h: "for_lines parse (split_lines chunk) s = (c, s')"
    by (cases "for_lines parse (split_lines chunk) s")
  with in_sync_for_lines[OF Cons.prems, of parse "split_lines chunk"]
  have s': "in_sync earlier s'" by simp
  show ?case using h s' Cons.IH[OF s'] by (cases c) simp_all
qed

lemmas run_simps =
  handleSendMessage_def start_send_def conv0_def sample_parse_def startsWith_def
  handle_event_def put_assistant_def Let_def empty_assistant_def user_message_def

text \<open>
  Within one chunk the \<^verbatim>\<open>break\<close> does what it is there for: the lines after an
  \<^verbatim>\<open>error\<close> event are not looked at.
\<close>

lemma error_event_ends_chunk:
  assumes "startsWith line ''data: ''" and "parse (drop 6 line) = Some data"
      and "get_prop data ''type'' = JStr ''error''"
  shows "for_lines parse (line # rest) s =
           (Break, s\<lparr>effects := effects s @ [StreamError (get_prop data ''message'')]\<rparr>)"
proof -
  from assms(3) have "\<not> nullish data" by (cases data) auto
  with assms show ?thesis by (simp add: handle_event_def)
qed

text \<open>
  C1. The claim: once an \<^verbatim>\<open>error\<close> event is met, no later event of the stream is
  applied. The code does not do that: the \<^verbatim>\<open>break\<close> of the \<^verbatim>\<open>error\<close> branch leaves the
  \<^verbatim>\<open>for\<close> loop over the lines of one chunk, and the \<^verbatim>\<open>while\<close> loop reads the next chunk.
  Here the \<^verbatim>\<open>error\<close> event comes in the first chunk and a \<^verbatim>\<open>stage1_complete\<close> event in
  the second: after the run the assistant message holds the data of the later event.
\<close>

theorem C1_event_after_error_is_applied:
  \<open>handleSendMessage sample_parse
     (Inr [''data: {"type":"error","message":"boom"}\<newline>\<newline>'',
           ''data: {"type":"stage1_complete","data":[{"model":"m1","response":"r1"}]}\<newline>\<newline>''])
     (JStr ''c1'') (JStr ''hi'') (JStr ''council'') (conv0, [])
   = (\<lparr>title = JStr ''New Conversation'',
       messages =
         [user_message (JStr ''hi''),
          (empty_assistant (JStr ''council''))
            \<lparr>stage1 := JArr [JObj [(''model'', JStr ''m1''), (''response'', JStr ''r1'')]]\<rparr>]\<rparr>,
      [StreamError (JStr ''boom'')])\<close>
  by (simp add: run_simps)

section \<open>The fields of the two protocols\<close>

lemma handle_event_keeps_hybrid:
  assumes "get_prop data ''type'' \<notin> JStr ` set hybrid_types"
  shows "hybrid_phase1 (assistantMessage (snd (handle_event data s))) = hybrid_phase1 (assistantMessage s)"
    and "hybrid_phase2 (assistantMessage (snd (handle_event data s))) = hybrid_phase2 (assistantMessage s)"
    and "hybrid_phase3 (assistantMessage (snd (handle_event data s))) = hybrid_phase3 (assistantMessage s)"
    and "hybrid_phase4 (assistantMessage (snd (handle_event data s))) = hybrid_phase4 (assistantMessage s)"
  using assms by (simp_all add: handle_event_def hybrid_types_def put_assistant_def Let_def)

lemma handle_event_keeps_council:
  assumes "get_prop data ''type'' \<notin> JStr ` set council_types"
  shows "stage1 (assistantMessage (snd (handle_event data s))) = stage1 (assistantMessage s)"
    and "stage2 (assistantMessage (snd (handle_event data s))) = stage2 (assistantMessage s)"
    and "stage3 (assistantMessage (snd (handle_event data s))) = stage3 (assistantMessage s)"
  using assms by (simp_all add: handle_event_def council_types_def put_assistant_def Let_def)

lemma for_lines_keeps:
  assumes step: "\<And>data s. get_prop data ''type'' \<notin> JStr ` T \<Longrightarrow> P (assistantMessage s) \<Longrightarrow>
                   P (assistantMessage (snd (handle_event data s)))"
  shows "\<forall>line \<in> set ls. line_type parse line \<notin> JStr ` T \<Longrightarrow> P (assistantMessage s) \<Longrightarrow>
         P (assistantMessage (snd (for_lines parse ls s)))"
proof (induction ls arbitrary: s)
  case Nil
  then show ?case by simp
next
  case (Cons line ls)
  show ?case
  proof (cases "startsWith line ''data: ''")
    case False
    with Cons show ?thesis by simp
  next
    case True
    show ?thesis
    proof (cases "parse (drop 6 line)")
      case None
      with True Cons.prems show ?thesis by simp
    next
      case (Some data)
      obtain c s' where h: "handle_event data s = (c, s')"
        by (cases "handle_event data s")
      have ty: "get_prop data ''type'' \<notin> JStr ` T"
      proof (cases "nullish data")
        case True
        then have "get_prop data ''type'' = JUndefined" by (cases data) simp_all
        then show ?thesis by auto
      next
        case False
        with Cons.prems(1) True Some show ?thesis by (simp add: line_type_def)
      qed
      from step[OF ty Cons.prems(2)] h have s': "P (assistantMessage s')" by simp
      from Cons.prems(1) have rest: "\<forall>line \<in> set ls. line_type parse line \<notin> JStr ` T" by simp
      show ?thesis using True Some h s' Cons.IH[OF rest s'] by (cases c) simp_all
    qed
  qed
qed

lemma read_loop_keeps:
  assumes step: "\<And>data s. get_prop data ''type'' \<notin> JStr ` T \<Longrightarrow> P (assistantMessage s) \<Longrightarrow>
                   P (assistantMessage (snd (handle_event data s)))"
  shows "\<forall>chunk \<in> set chunks. \<forall>line \<in> set (split_lines chunk). line_type parse line \<notin> JStr ` T \<Longrightarrow>
         P (assistantMessage s) \<Longrightarrow> P (assistantMessage (snd (read_loop parse chunks s)))"
proof (induction chunks arbitrary: s)
  case Nil
  then show ?case by simp
next
  case (Cons chunk chunks)
  obtain c s' where h: "for_lines parse (split_lines chunk) s = (c, s')"
    by (cases "for_lines parse (split_lines chunk) s")
  from Cons.prems(1) have here: "\<forall>line \<in> set (split_lines chunk). line_type parse line \<notin> JStr ` T"
    by simp
  from for_lines_keeps[of T P, OF step here Cons.prems(2)] h
  have s': "P (assistantMessage s')" by simp
  from Cons.prems(1) have rest:
    "\<forall>chunk \<in> set chunks. \<forall>line \<in> set (split_lines chunk). line_type parse line \<notin> JStr ` T"
    by simp
  show ?case using h s' Cons.IH[OF rest s'] by (cases c) simp_all
qed

lemma last_of_run:
  "last (messages (currentConversation (snd (read_loop parse chunks (start_send c m prev es))))) =
   assistantMessage (snd (read_loop parse chunks (start_send c m prev es)))"
  using in_sync_read_loop[OF in_sync_start]
  by (simp add: in_sync_def)

lemma handleSendMessage_conversation:
  "truthy cid \<Longrightarrow>
   fst (handleSendMessage parse (Inr chunks) cid c mode_arg (prev, es)) =
     currentConversation
       (snd (read_loop parse chunks
          (start_send c (if mode_arg = JUndefined then JStr ''council'' else mode_arg) prev es)))"
  by (simp add: handleSendMessage_def Let_def split: prod.splits control.splits)

text \<open>
  C2, as the code has it. The placeholder and the local assistant message hold the seven
  fields of both protocols, the sequences \<^verbatim>\<open>[]\<close> and the single records \<^verbatim>\<open>null\<close>. A council
  event leaves the hybrid fields of the assistant message as they are and a hybrid event
  the council fields. So after a send whose stream carries no hybrid completion event the
  hybrid fields of the stored message are still empty, and after a send with no council
  completion event the council fields are. The loop does not look at the mode: nothing
  keeps a stream from carrying events of both protocols.
\<close>

theorem C2_protocol_fields:
  "last (messages (currentConversation (start_send c m prev es))) = empty_assistant m \<and>
   assistantMessage (start_send c m prev es) = empty_assistant m \<and>
   council_empty (empty_assistant m) \<and> hybrid_empty (empty_assistant m) \<and>
   (get_prop data ''type'' \<in> JStr ` set council_types \<longrightarrow>
      (let a = assistantMessage s; a' = assistantMessage (snd (handle_event data s))
       in hybrid_phase1 a' = hybrid_phase1 a \<and> hybrid_phase2 a' = hybrid_phase2 a \<and>
          hybrid_phase3 a' = hybrid_phase3 a \<and> hybrid_phase4 a' = hybrid_phase4 a)) \<and>
   (get_prop data ''type'' \<in> JStr ` set hybrid_types \<longrightarrow>
      (let a = assistantMessage s; a' = assistantMessage (snd (handle_event data s))
       in stage1 a' = stage1 a \<and> stage2 a' = stage2 a \<and> stage3 a' = stage3 a)) \<and>
   (truthy cid \<and>
    (\<forall>chunk \<in> set chunks. \<forall>line \<in> set (split_lines chunk).
        line_type parse line \<notin> JStr ` set hybrid_types) \<longrightarrow>
      hybrid_empty
        (last (messages (fst (handleSendMessage parse (Inr chunks) cid c mode_arg (prev, es)))))) \<and>
   (truthy cid \<and>
    (\<forall>chunk \<in> set chunks. \<forall>line \<in> set (split_lines chunk).
        line_type parse line \<notin> JStr ` set council_types) \<longrightarrow>
      council_empty
        (last (messages (fst (handleSendMessage parse (Inr chunks) cid c mode_arg (prev, es))))))"
proof (intro conjI impI)
  show "last (messages (currentConversation (start_send c m prev es))) = empty_assistant m"
    by (simp add: start_send_def)
  show "assistantMessage (start_send c m prev es) = empty_assistant m"
    by (simp add: start_send_def)
  show "council_empty (empty_assistant m)" by (simp add: council_empty_def empty_assistant_def)
  show "hybrid_empty (empty_assistant m)" by (simp add: hybrid_empty_def empty_assistant_def)
next
  assume "get_prop data ''type'' \<in> JStr ` set council_types"
  then have "get_prop data ''type'' \<notin> JStr ` set hybrid_types"
    by (auto simp: council_types_def hybrid_types_def)
  then show "let a = assistantMessage s; a' = assistantMessage (snd (handle_event data s))
       in hybrid_phase1 a' = hybrid_phase1 a \<and> hybrid_phase2 a' = hybrid_phase2 a \<and>
          hybrid_phase3 a' = hybrid_phase3 a \<and> hybrid_phase4 a' = hybrid_phase4 a"
    by (simp add: Let_def handle_event_keeps_hybrid)
next
  assume "get_prop data ''type'' \<in> JStr ` set hybrid_types"
  then have "get_prop data ''type'' \<notin> JStr ` set council_types"
    by (auto simp: council_types_def hybrid_types_def)
  then show "let a = assistantMessage s; a' = assistantMessage (snd (handle_event data s))
       in stage1 a' = stage1 a \<and> stage2 a' = stage2 a \<and> stage3 a' = stage3 a"
    by (simp add: Let_def handle_event_keeps_council)
next
  assume h: "truthy cid \<and>
    (\<forall>chunk \<in> set chunks. \<forall>line \<in> set (split_lines chunk).
        line_type parse line \<notin> JStr ` set hybrid_types)"
  define m where "m = (if mode_arg = JUndefined then JStr ''council'' else mode_arg)"
  from h have types: "\<forall>chunk \<in> set chunks. \<forall>line \<in> set (split_lines chunk).
        line_type parse line \<notin> JStr ` set hybrid_types" by simp
  have "hybrid_empty (assistantMessage (snd (read_loop parse chunks (start_send c m prev es))))"
  proof (rule read_loop_keeps[of "set hybrid_types" hybrid_empty, OF _ types])
    show "hybrid_empty (assistantMessage (start_send c m prev es))"
      by (simp add: start_send_def hybrid_empty_def empty_assistant_def)
  qed (simp add: hybrid_empty_def handle_event_keeps_hybrid)
  then have "hybrid_empty (last (messages (currentConversation
           (snd (read_loop parse chunks (start_send c m prev es))))))"
    by (simp only: last_of_run)
  with h show "hybrid_empty
        (last (messages (fst (handleSendMessage parse (Inr chunks) cid c mode_arg (prev, es)))))"
    by (simp only: handleSendMessage_conversation m_def)
next
  assume h: "truthy cid \<and>
    (\<forall>chunk \<in> set chunks. \<forall>line \<in> set (split_lines chunk).
        line_type parse line \<notin> JStr ` set council_types)"
  define m where "m = (if mode_arg = JUndefined then JStr ''council'' else mode_arg)"
  from h have types: "\<forall>chunk \<in> set chunks. \<forall>line \<in> set (split_lines chunk).
        line_type parse line \<notin> JStr ` set council_types" by simp
  have "council_empty (assistantMessage (snd (read_loop parse chunks (start_send c m prev es))))"
  proof (rule read_loop_keeps[of "set council_types" council_empty, OF _ types])
    show "council_empty (assistantMessage (start_send c m prev es))"
      by (simp add: start_send_def council_empty_def empty_assistant_def)
  qed (simp add: council_empty_def handle_event_keeps_council)
  then have "council_empty (last (messages (currentConversation
           (snd (read_loop parse chunks (start_send c m prev es))))))"
    by (simp only: last_of_run)
  with h show "council_empty
        (last (messages (fst (handleSendMessage parse (Inr chunks) cid c mode_arg (prev, es)))))"
    by (simp only: handleSendMessage_conversation m_def)
qed

theorem C2_witness:
  \<open>hybrid_empty
     (last (messages (fst (handleSendMessage sample_parse
        (Inr [''data: {"type":"stage1_complete","data":[{"model":"m1","response":"r1"}]}\<newline>\<newline>''])
        (JStr ''c1'') (JStr ''hi'') (JStr ''council'') (conv0, []))))) \<and>
   \<not> council_empty
     (last (messages (fst (handleSendMessage sample_parse
        (Inr [''data: {"type":"stage1_complete","data":[{"model":"m1","response":"r1"}]}\<newline>\<newline>''])
        (JStr ''c1'') (JStr ''hi'') (JStr ''council'') (conv0, [])))))\<close>
proof -
  have types:
    \<open>\<forall>chunk \<in> set [''data: {"type":"stage1_complete","data":[{"model":"m1","response":"r1"}]}\<newline>\<newline>''].
       \<forall>line \<in> set (split_lines chunk).
         line_type sample_parse line \<notin> JStr ` set hybrid_types\<close>
    by (simp add: line_type_def startsWith_def sample_parse_def hybrid_types_def)
  have cid: "truthy (JStr ''c1'')" by simp
  have \<open>hybrid_empty
     (last (messages (fst (handleSendMessage sample_parse
        (Inr [''data: {"type":"stage1_complete","data":[{"model":"m1","response":"r1"}]}\<newline>\<newline>''])
        (JStr ''c1'') (JStr ''hi'') (JStr ''council'') (conv0, [])))))\<close>
    using C2_protocol_fields
      [where parse = sample_parse and cid = "JStr ''c1''" and c = "JStr ''hi''"
         and mode_arg = "JStr ''council''" and prev = conv0 and es = "[]"
         and chunks = \<open>[''data: {"type":"stage1_complete","data":[{"model":"m1","response":"r1"}]}\<newline>\<newline>'']\<close>]
      types cid
    by blast
  moreover have \<open>\<not> council_empty
     (last (messages (fst (handleSendMessage sample_parse
        (Inr [''data: {"type":"stage1_complete","data":[{"model":"m1","response":"r1"}]}\<newline>\<newline>''])
        (JStr ''c1'') (JStr ''hi'') (JStr ''council'') (conv0, [])))))\<close>
    by (simp add: run_simps council_empty_def)
  ultimately show ?thesis by simp
qed

text \<open>
  C2 as stated fails in both directions. A stream with a \<^verbatim>\<open>stage1_complete\<close> and a
  \<^verbatim>\<open>hybrid_phase1_complete\<close> event fills fields of both protocols; the stream
  \<^verbatim>\<open>stage1_start\<close>, \<^verbatim>\<open>error\<close> of a run whose first stage fails fills none.
\<close>

theorem C2_counterexample:
  \<open>\<not> council_empty (last (messages (fst (handleSendMessage sample_parse
        (Inr [''data: {"type":"stage1_complete","data":[{"model":"m1","response":"r1"}]}\<newline>\<newline>'',
              ''data: {"type":"hybrid_phase1_complete","data":[{"model":"m2","response":"r2"}]}\<newline>\<newline>''])
        (JStr ''c1'') (JStr ''hi'') (JStr ''council'') (conv0, []))))) \<and>
   \<not> hybrid_empty (last (messages (fst (handleSendMessage sample_parse
        (Inr [''data: {"type":"stage1_complete","data":[{"model":"m1","response":"r1"}]}\<newline>\<newline>'',
              ''data: {"type":"hybrid_phase1_complete","data":[{"model":"m2","response":"r2"}]}\<newline>\<newline>''])
        (JStr ''c1'') (JStr ''hi'') (JStr ''council'') (conv0, []))))) \<and>
   council_empty (last (messages (fst (handleSendMessage sample_parse
        (Inr [''data: {"type":"stage1_start"}\<newline>\<newline>data: {"type":"error","message":"boom"}\<newline>\<newline>''])
        (JStr ''c1'') (JStr ''hi'') (JStr ''council'') (conv0, []))))) \<and>
   hybrid_empty (last (messages (fst (handleSendMessage sample_parse
        (Inr [''data: {"type":"stage1_start"}\<newline>\<newline>data: {"type":"error","message":"boom"}\<newline>\<newline>''])
        (JStr ''c1'') (JStr ''hi'') (JStr ''council'') (conv0, [])))))\<close>
  by (simp add: run_simps council_empty_def hybrid_empty_def)

section \<open>What a completion event changes\<close>

text \<open>
  C3. At every state that a run of \<^verbatim>\<open>handleSendMessage\<close> reaches (after the chunks read
  so far and the lines \<open>ls\<close> of the current chunk), the last message of the conversation is
  the assistant message in flight, after the earlier messages and the user message. A
  completion event stores its \<^verbatim>\<open>data\<close> in the field that its type names
  (\<^verbatim>\<open>stage2_complete\<close> its \<^verbatim>\<open>metadata\<close> too) of that last message; the other fields of
  the message, the messages before it, the title and the effects are unchanged.
\<close>

theorem C3_completion_event_frame:
  assumes run: "read_loop parse chunks (start_send c m prev es) = (Next, s1)"
      and lines: "for_lines parse ls s1 = (Next, s)"
  shows
   "let ms = messages (currentConversation s);
        d = get_prop data ''data'';
        store = (\<lambda>new. (Next, s\<lparr>assistantMessage := new,
                      currentConversation := (currentConversation s)\<lparr>messages := butlast ms @ [new]\<rparr>\<rparr>))
    in ms \<noteq> [] \<and> butlast ms = messages prev @ [user_message c] \<and>
       (get_prop data ''type'' = JStr ''stage1_complete'' \<longrightarrow>
          handle_event data s = store ((last ms)\<lparr>stage1 := d\<rparr>)) \<and>
       (get_prop data ''type'' = JStr ''stage2_complete'' \<longrightarrow>
          handle_event data s =
            store ((last ms)\<lparr>stage2 := d, metadata := get_prop data ''metadata''\<rparr>)) \<and>
       (get_prop data ''type'' = JStr ''stage3_complete'' \<longrightarrow>
          handle_event data s = store ((last ms)\<lparr>stage3 := d\<rparr>)) \<and>
       (get_prop data ''type'' = JStr ''hybrid_phase1_complete'' \<longrightarrow>
          handle_event data s = store ((last ms)\<lparr>hybrid_phase1 := d\<rparr>)) \<and>
       (get_prop data ''type'' = JStr ''hybrid_phase2_complete'' \<longrightarrow>
          handle_event data s = store ((last ms)\<lparr>hybrid_phase2 := d\<rparr>)) \<and>
       (get_prop data ''type'' = JStr ''hybrid_phase3_complete'' \<longrightarrow>
          handle_event data s = store ((last ms)\<lparr>hybrid_phase3 := d\<rparr>)) \<and>
       (get_prop data ''type'' = JStr ''hybrid_phase4_complete'' \<longrightarrow>
          handle_event data s = store ((last ms)\<lparr>hybrid_phase4 := d\<rparr>))"
proof -
  define earlier where "earlier = messages prev @ [user_message c]"
  have "in_sync earlier (snd (read_loop parse chunks (start_send c m prev es)))"
    unfolding earlier_def by (rule in_sync_read_loop[OF in_sync_start])
  with run have "in_sync earlier s1" by simp
  from in_sync_for_lines[OF this, of parse ls] lines
  have "in_sync earlier s" by simp
  then have ms: "messages (currentConversation s) = earlier @ [assistantMessage s]"
    by (simp add: in_sync_def)
  have nn: "\<And>t. get_prop data ''type'' = JStr t \<Longrightarrow> \<not> nullish data"
    by (cases data) auto
  have bl: "butlast (messages (currentConversation s)) = earlier"
    and la: "last (messages (currentConversation s)) = assistantMessage s"
    and ne: "messages (currentConversation s) \<noteq> []"
    using ms by simp_all
  show ?thesis
    unfolding Let_def bl la
    apply (intro conjI impI)
            apply (rule ne)
           apply (rule earlier_def)
    using nn by (simp_all add: handle_event_def put_assistant_sync[OF ms])
qed

theorem C3_witness:
  "handle_event
     (JObj [(''type'', JStr ''stage3_complete''),
            (''data'', JObj [(''model'', JStr ''m1''), (''response'', JStr ''r1'')])])
     (start_send (JStr ''hi'') (JStr ''council'') conv0 []) =
   (Next,
    \<lparr>assistantMessage =
       (empty_assistant (JStr ''council''))
         \<lparr>stage3 := JObj [(''model'', JStr ''m1''), (''response'', JStr ''r1'')]\<rparr>,
     currentConversation =
       \<lparr>title = JStr ''New Conversation'',
        messages =
          [user_message (JStr ''hi''),
           (empty_assistant (JStr ''council''))
             \<lparr>stage3 := JObj [(''model'', JStr ''m1''), (''response'', JStr ''r1'')]\<rparr>]\<rparr>,
     effects = []\<rparr>)"
  using C3_completion_event_frame
    [of sample_parse "[]" "JStr ''hi''" "JStr ''council''" conv0 "[]"
        "start_send (JStr ''hi'') (JStr ''council'') conv0 []" "[]"
        "start_send (JStr ''hi'') (JStr ''council'') conv0 []"
        "JObj [(''type'', JStr ''stage3_complete''),
            (''data'', JObj [(''model'', JStr ''m1''), (''response'', JStr ''r1'')])]"]
  by (simp add: start_send_def conv0_def Let_def)

section \<open>Events without a branch\<close>

lemma start_suffix_unhandled: "JStr (t @ ''_start'') \<notin> JStr ` set handled_types"
proof -
  have "last (t @ ''_start'') = CHR ''t''" by simp
  moreover have "\<forall>h \<in> set handled_types. last h \<noteq> CHR ''t''"
    by (simp add: handled_types_def)
  ultimately show ?thesis by auto
qed

text \<open>
  C9. An event whose \<^verbatim>\<open>type\<close> is none of the ten that \<^verbatim>\<open>handleSendMessage\<close> has a
  branch for leaves the state as it is: the messages, the local assistant message, the
  title and the effects. When the parsed value is an object (anything but \<^verbatim>\<open>null\<close>), the
  loop goes on to the next line; \<^verbatim>\<open>null\<close> raises a TypeError, which changes the state
  no more. Every type that ends in \<^verbatim>\<open>_start\<close> is such a type.
\<close>

theorem C9_unhandled_event_changes_nothing:
  "(get_prop data ''type'' \<notin> JStr ` set handled_types \<longrightarrow>
      snd (handle_event data s) = s \<and> (nullish data \<or> handle_event data s = (Next, s))) \<and>
   (get_prop data ''type'' = JStr (t @ ''_start'') \<longrightarrow> handle_event data s = (Next, s))"
proof (intro conjI impI)
  assume h: "get_prop data ''type'' \<notin> JStr ` set handled_types"
  then show "snd (handle_event data s) = s"
    by (simp add: handle_event_def handled_types_def)
  from h show "nullish data \<or> handle_event data s = (Next, s)"
    by (simp add: handle_event_def handled_types_def)
next
  assume h: "get_prop data ''type'' = JStr (t @ ''_start'')"
  then have "\<not> nullish data" by (cases data) auto
  moreover from h have "get_prop data ''type'' \<notin> JStr ` set handled_types"
    using start_suffix_unhandled[of t] by simp
  ultimately show "handle_event data s = (Next, s)"
    by (simp add: handle_event_def handled_types_def)
qed

theorem C9_witness:
  "handle_event (JObj [(''type'', JStr ''stage1_start'')])
     (start_send (JStr ''hi'') (JStr ''council'') conv0 []) =
   (Next, start_send (JStr ''hi'') (JStr ''council'') conv0 [])"
  using C9_unhandled_event_changes_nothing
    [of "JObj [(''type'', JStr ''stage1_start'')]"
        "start_send (JStr ''hi'') (JStr ''council'') conv0 []" "''stage1''"]
  by simp

section \<open>The Stage 2 view\<close>
























section \<open>From the event to the Stage 2 view\<close>









section \<open>The hybrid view\<close>

lemma model_tabs_ok:
  assumes "\<forall>(r, m) \<in> set recs. \<not> nullish r \<and> get_prop r ''model'' = JStr m"
  shows "sequence (map (\<lambda>(i, r). model_tab activeTab i r) (enumerate n (map fst recs))) =
         Inr (map (\<lambda>(i, r, m). hybrid_tab activeTab i m) (enumerate n recs))"
  using assms
proof (induction recs arbitrary: n)
  case Nil
  show ?case by simp
next
  case (Cons e recs)
  obtain r m where e: "e = (r, m)" by (cases e)
  from Cons.prems e have here: "\<not> nullish r" "get_prop r ''model'' = JStr m"
    and rest: "\<forall>(r, m) \<in> set recs. \<not> nullish r \<and> get_prop r ''model'' = JStr m"
    by simp_all
  from here have "model_tab activeTab n r = Inr (hybrid_tab activeTab n m)"
    by (simp add: model_tab_def)
  with Cons.IH[OF rest] e show ?case by simp
qed

lemma ModelTabs_records:
  assumes recs: "\<forall>(r, m) \<in> set recs. \<not> nullish r \<and> get_prop r ''model'' = JStr m"
      and tab: "activeTab < length recs"
  shows "ModelTabs (JArr (map fst recs)) activeTab =
         Inr (model_tabs_view (map (\<lambda>(i, r, m). hybrid_tab activeTab i m) (enumerate 0 recs))
                (fst (recs ! activeTab)))"
proof -
  from tab have ne: "recs \<noteq> []" by auto
  from tab have "recs ! activeTab \<in> set recs" by simp
  from bspec[OF recs this] have "\<not> nullish (fst (recs ! activeTab))"
    by (simp add: case_prod_beta)
  with ne tab show ?thesis
    by (simp add: ModelTabs_def model_tabs_ok[OF recs])
qed

lemma isEmpty_nonempty_array: "xs \<noteq> [] \<Longrightarrow> \<not> isEmpty (JArr xs)"
  by (simp add: isEmpty_def)

lemma isEmpty_cases:
  "isEmpty data =
     (case data of
        JArr xs \<Rightarrow> xs = []
      | JObj kvs \<Rightarrow> (case map_of kvs ''response'' of None \<Rightarrow> True | Some v \<Rightarrow> \<not> truthy v)
      | _ \<Rightarrow> True)"
  by (cases data) (simp_all add: isEmpty_def split: option.splits)

lemma tab_label_no_slash:
  assumes "CHR ''/'' \<notin> set m"
  shows "tab_label m = m"
proof -
  from assms have "\<forall>c \<in> set (rev m). c \<noteq> CHR ''/''" by auto
  then have tw: "takeWhile (\<lambda>c. c \<noteq> CHR ''/'') (rev m) = rev m"
    by (simp only: takeWhile_eq_all_conv)
  show ?thesis
    unfolding tab_label_def last_segment_def tw by simp
qed

lemma last_segment_after_slash:
  assumes "CHR ''/'' \<notin> set n"
  shows "last_segment (p @ CHR ''/'' # n) = n"
proof -
  from assms have "takeWhile (\<lambda>c. c \<noteq> CHR ''/'') (rev n @ CHR ''/'' # rev p) = rev n"
    by (subst takeWhile_append2) auto
  then show ?thesis
    by (simp add: last_segment_def)
qed

lemma tab_label_after_slash:
  "CHR ''/'' \<notin> set n \<Longrightarrow> n \<noteq> [] \<Longrightarrow> tab_label (p @ CHR ''/'' # n) = n"
  by (simp add: tab_label_def last_segment_after_slash)

lemma tab_label_trailing_slash: "tab_label (p @ ''/'') = p @ ''/''"
  using last_segment_after_slash[of "[]" p] by (simp add: tab_label_def)

lemma PhaseBlock_multi:
  assumes "multi phase"
      and recs: "\<forall>(r, m) \<in> set recs. \<not> nullish r \<and> get_prop r ''model'' = JStr m"
      and tab: "activeTab < length recs"
  shows "PhaseBlock phase (JArr (map fst recs)) loading isOpen activeTab =
        Inr (phase_block_view phase isOpen
               (if isOpen
                then phase_body
                       (model_tabs_view
                          (map (\<lambda>(i, r, m). hybrid_tab activeTab i m) (enumerate 0 recs))
                          (fst (recs ! activeTab)))
                else Val (JBool False)))"
proof -
  from tab have "map fst recs \<noteq> []" by auto
  then have "\<not> isEmpty (JArr (map fst recs))" by (rule isEmpty_nonempty_array)
  with assms(1) show ?thesis
    by (simp add: PhaseBlock_def ModelTabs_records[OF recs tab])
qed

lemma PhaseBlock_single:
  "\<not> multi phase \<Longrightarrow> \<not> isEmpty data \<Longrightarrow>
   PhaseBlock phase data loading isOpen activeTab =
     Inr (phase_block_view phase isOpen
            (if isOpen then phase_body (single_view data) else Val (JBool False)))"
  by (simp add: PhaseBlock_def)

lemma HybridView_blocks:
  "HybridView msg loadingPhase openState tabState =
     (case sequence
        [PhaseBlock (PHASE_CONFIG ! 0) (hybrid_phase1 msg) (loadingPhase = ''hybrid_phase1'')
           (openState ''hybrid_phase1'') (tabState ''hybrid_phase1''),
         PhaseBlock (PHASE_CONFIG ! 1) (hybrid_phase2 msg) (loadingPhase = ''hybrid_phase2'')
           (openState ''hybrid_phase2'') (tabState ''hybrid_phase2''),
         PhaseBlock (PHASE_CONFIG ! 2) (hybrid_phase3 msg) (loadingPhase = ''hybrid_phase3'')
           (openState ''hybrid_phase3'') (tabState ''hybrid_phase3''),
         PhaseBlock (PHASE_CONFIG ! 3) (hybrid_phase4 msg) (loadingPhase = ''hybrid_phase4'')
           (openState ''hybrid_phase4'') (tabState ''hybrid_phase4'')] of
        Inl e \<Rightarrow> Inl e
      | Inr blocks \<Rightarrow> Inr (hybrid_view blocks))"
  by (simp add: HybridView_def PHASE_CONFIG_def message_field_def)

lemma HybridView_empty:
  assumes "isEmpty (hybrid_phase1 msg)" "isEmpty (hybrid_phase2 msg)"
      and "isEmpty (hybrid_phase3 msg)" "isEmpty (hybrid_phase4 msg)"
      and "loadingPhase \<notin> set (map key PHASE_CONFIG)"
  shows "HybridView msg loadingPhase openState tabState =
           Inr (hybrid_view [Val JNull, Val JNull, Val JNull, Val JNull])"
proof -
  from assms(5) have "loadingPhase \<noteq> ''hybrid_phase1''" "loadingPhase \<noteq> ''hybrid_phase2''"
      "loadingPhase \<noteq> ''hybrid_phase3''" "loadingPhase \<noteq> ''hybrid_phase4''"
    by (simp_all add: PHASE_CONFIG_def)
  with assms(1-4) show ?thesis
    by (simp add: HybridView_blocks PhaseBlock_def)
qed

lemma HybridView_populated:
  assumes recsA: "\<forall>(r, m) \<in> set recsA. \<not> nullish r \<and> get_prop r ''model'' = JStr m"
      and recsB: "\<forall>(r, m) \<in> set recsB. \<not> nullish r \<and> get_prop r ''model'' = JStr m"
      and tabA: "tabState ''hybrid_phase1'' < length recsA"
      and tabB: "tabState ''hybrid_phase2'' < length recsB"
      and p1: "hybrid_phase1 msg = JArr (map fst recsA)"
      and p2: "hybrid_phase2 msg = JArr (map fst recsB)"
      and p3: "\<not> isEmpty (hybrid_phase3 msg)"
      and p4: "\<not> isEmpty (hybrid_phase4 msg)"
  shows "HybridView msg loadingPhase (\<lambda>k. True) tabState =
        Inr (hybrid_view
               [phase_block_view (PHASE_CONFIG ! 0) True
                  (phase_body
                     (model_tabs_view
                        (map (\<lambda>(i, r, m). hybrid_tab (tabState ''hybrid_phase1'') i m)
                           (enumerate 0 recsA))
                        (fst (recsA ! tabState ''hybrid_phase1'')))),
                phase_block_view (PHASE_CONFIG ! 1) True
                  (phase_body
                     (model_tabs_view
                        (map (\<lambda>(i, r, m). hybrid_tab (tabState ''hybrid_phase2'') i m)
                           (enumerate 0 recsB))
                        (fst (recsB ! tabState ''hybrid_phase2'')))),
                phase_block_view (PHASE_CONFIG ! 2) True
                  (phase_body (single_view (hybrid_phase3 msg))),
                phase_block_view (PHASE_CONFIG ! 3) True
                  (phase_body (single_view (hybrid_phase4 msg)))])"
proof -
  have multis: "multi (PHASE_CONFIG ! 0)" "multi (PHASE_CONFIG ! 1)"
      "\<not> multi (PHASE_CONFIG ! 2)" "\<not> multi (PHASE_CONFIG ! 3)"
    by (simp_all add: PHASE_CONFIG_def)
  note b1 = PhaseBlock_multi[OF multis(1) recsA tabA, where isOpen = True]
  note b2 = PhaseBlock_multi[OF multis(2) recsB tabB, where isOpen = True]
  note b3 = PhaseBlock_single[OF multis(3) p3, where isOpen = True]
  note b4 = PhaseBlock_single[OF multis(4) p4, where isOpen = True]
  show ?thesis
    unfolding HybridView_blocks p1 p2 b1 b2 b3 b4
    by simp
qed

lemmas hybrid_pieces =
  phase_block_view_def phase_body_def model_tabs_view_def hybrid_tab_def single_view_def
  hybrid_view_def

text \<open>
  C7. \<^verbatim>\<open>PHASE_CONFIG\<close> has the four phases in order, the first two \<^verbatim>\<open>multi\<close>. The data of
  a block is empty when it is the empty array, an object with no \<^verbatim>\<open>response\<close> or a falsy
  one, or no array and no object at all (absent); a block whose data is empty and that
  is not loading renders nothing (\<^verbatim>\<open>null\<close>). Otherwise the block is the element \<open>block\<close>,
  written out: the header with the label and the subtitle of the phase, then the body,
  \<^verbatim>\<open>false\<close> when the block is closed. The body of a \<^verbatim>\<open>multi\<close> phase whose data is an
  array of records (objects whose \<^verbatim>\<open>model\<close> is a string) is \<open>tabs\<close>: one button per
  record, in order, labelled with what follows the last slash of its \<^verbatim>\<open>model\<close> (the
  whole name when there is no slash or nothing follows it), then the \<^verbatim>\<open>model\<close> and the
  \<^verbatim>\<open>response\<close> of the active record. The body of a phase that is not \<^verbatim>\<open>multi\<close> is
  \<open>single\<close> for any data that is not empty: the \<^verbatim>\<open>model\<close> and the \<^verbatim>\<open>response\<close> of the
  data as one record, with no tab. \<^verbatim>\<open>HybridView\<close> renders the four blocks, under its
  header, from the four hybrid fields of the message: four times nothing when the four
  are empty and no phase is loading, and tabs, tabs, one record, one record when the
  first two are arrays of records and the last two are not empty.
\<close>

theorem C7_hybrid_phase_rendering:
  "let block = (\<lambda>title sub opened body.
                  El ''div'' ''hybrid-phase-block''
                    [El ''button'' ''hybrid-phase-header''
                       [El ''span'' ''hybrid-phase-title'' [Val (JStr title)],
                        El ''span'' ''hybrid-phase-subtitle'' [Val (JStr sub)],
                        El ''span'' ''hybrid-phase-toggle'' [Val (JStr (if opened then ''U+25B2'' else ''U+25BC''))]],
                     body]);
       record_view = (\<lambda>r.
                        [El ''div'' ''hybrid-model-label'' [Val (get_prop r ''model'')],
                         El ''div'' ''hybrid-markdown'' [El ''ReactMarkdown'' '''' [Val (get_prop r ''response'')]]]);
       tabs = (\<lambda>active recs.
                 El ''div'' ''hybrid-tabs''
                   [El ''div'' ''hybrid-tab-bar''
                      (map (\<lambda>(i, r, m).
                              El ''button'' (''hybrid-tab-btn '' @ (if i = active then ''active'' else ''''))
                                [Val (JStr (tab_label m))])
                         (enumerate 0 recs)),
                    El ''div'' ''hybrid-tab-content'' (record_view (fst (recs ! active)))]);
       single = (\<lambda>r. El ''div'' '''' (record_view r));
       body = (\<lambda>inner. El ''div'' ''hybrid-phase-body'' [inner]);
       view = (\<lambda>blocks.
         El ''div'' ''hybrid-view''
           (El ''div'' ''hybrid-header''
              [El ''span'' ''hybrid-badge'' [Val (JStr ''Debate Mode'')],
               El ''span'' ''hybrid-header-sub''
                 [Val (JStr ''Socratic -> Debate -> Devil's Advocate -> Synthesis'')]]
            # blocks))
   in map key PHASE_CONFIG =
        [''hybrid_phase1'', ''hybrid_phase2'', ''hybrid_phase3'', ''hybrid_phase4''] \<and>
      map multi PHASE_CONFIG = [True, True, False, False] \<and>
      isEmpty data =
        (case data of
           JArr xs \<Rightarrow> xs = []
         | JObj kvs \<Rightarrow> (case map_of kvs ''response'' of None \<Rightarrow> True | Some v \<Rightarrow> \<not> truthy v)
         | _ \<Rightarrow> True) \<and>
      (CHR ''/'' \<notin> set name \<longrightarrow> tab_label name = name) \<and>
      (CHR ''/'' \<notin> set name \<and> name \<noteq> [] \<longrightarrow> tab_label (prefix @ ''/'' @ name) = name) \<and>
      tab_label (prefix @ ''/'') = prefix @ ''/'' \<and>
      (isEmpty data \<and> \<not> loading \<longrightarrow>
         PhaseBlock phase data loading isOpen activeTab = Inr (Val JNull)) \<and>
      (multi phase \<and> data = JArr (map fst recs) \<and> activeTab < length recs \<and>
       (\<forall>(r, m) \<in> set recs. \<not> nullish r \<and> get_prop r ''model'' = JStr m) \<longrightarrow>
         PhaseBlock phase data loading isOpen activeTab =
           Inr (block (label phase) (subtitle phase) isOpen
                  (if isOpen then body (tabs activeTab recs) else Val (JBool False)))) \<and>
      (\<not> multi phase \<and> \<not> isEmpty data \<longrightarrow>
         PhaseBlock phase data loading isOpen activeTab =
           Inr (block (label phase) (subtitle phase) isOpen
                  (if isOpen then body (single data) else Val (JBool False)))) \<and>
      (isEmpty (hybrid_phase1 msg) \<and> isEmpty (hybrid_phase2 msg) \<and>
       isEmpty (hybrid_phase3 msg) \<and> isEmpty (hybrid_phase4 msg) \<and>
       loadingPhase \<notin> set (map key PHASE_CONFIG) \<longrightarrow>
         HybridView msg loadingPhase openState tabState =
           Inr (view [Val JNull, Val JNull, Val JNull, Val JNull])) \<and>
      (hybrid_phase1 msg = JArr (map fst recsA) \<and> hybrid_phase2 msg = JArr (map fst recsB) \<and>
       (\<forall>(r, m) \<in> set recsA. \<not> nullish r \<and> get_prop r ''model'' = JStr m) \<and>
       (\<forall>(r, m) \<in> set recsB. \<not> nullish r \<and> get_prop r ''model'' = JStr m) \<and>
       tabState ''hybrid_phase1'' < length recsA \<and> tabState ''hybrid_phase2'' < length recsB \<and>
       \<not> isEmpty (hybrid_phase3 msg) \<and> \<not> isEmpty (hybrid_phase4 msg) \<longrightarrow>
         HybridView msg loadingPhase (\<lambda>k. True) tabState =
           Inr (view
                  [block ''Phase 1: Socratic'' ''All models form their initial understanding''
                     True (body (tabs (tabState ''hybrid_phase1'') recsA)),
                   block ''Phase 2: Debate'' ''Models challenge and respond to each other''
                     True (body (tabs (tabState ''hybrid_phase2'') recsB)),
                   block ''Phase 3: Devil's Advocate'' ''The consensus is challenged head-on''
                     True (body (single (hybrid_phase3 msg))),
                   block ''Phase 4: Final Synthesis'' ''Chairman delivers the definitive answer''
                     True (body (single (hybrid_phase4 msg)))]))"
  unfolding Let_def
  apply (intro conjI impI)
  subgoal by (simp add: PHASE_CONFIG_def)
  subgoal by (simp add: PHASE_CONFIG_def)
  subgoal by (rule isEmpty_cases)
  subgoal by (rule tab_label_no_slash)
  subgoal by (simp add: tab_label_after_slash)
  subgoal by (rule tab_label_trailing_slash)
  subgoal by (simp add: PhaseBlock_def)
  subgoal using PhaseBlock_multi[of phase recs activeTab loading isOpen]
    by (cases isOpen) (auto simp: hybrid_pieces)
  subgoal using PhaseBlock_single[of phase data loading isOpen activeTab]
    by (cases isOpen) (simp_all add: hybrid_pieces)
  subgoal using HybridView_empty[of msg loadingPhase openState tabState]
    by (simp add: hybrid_pieces)
  subgoal using HybridView_populated[of recsA recsB tabState msg loadingPhase]
    by (auto simp: hybrid_pieces PHASE_CONFIG_def)
  done

theorem C7_witness:
  "HybridView sample_hybrid_message '''' (\<lambda>k. True) (\<lambda>k. 0) =
     Inr (El ''div'' ''hybrid-view''
            [El ''div'' ''hybrid-header''
               [El ''span'' ''hybrid-badge'' [Val (JStr ''Debate Mode'')],
                El ''span'' ''hybrid-header-sub''
                  [Val (JStr ''Socratic -> Debate -> Devil's Advocate -> Synthesis'')]],
             El ''div'' ''hybrid-phase-block''
               [El ''button'' ''hybrid-phase-header''
                  [El ''span'' ''hybrid-phase-title'' [Val (JStr ''Phase 1: Socratic'')],
                   El ''span'' ''hybrid-phase-subtitle'' [Val (JStr ''All models form their initial understanding'')],
                   El ''span'' ''hybrid-phase-toggle'' [Val (JStr ''U+25B2'')]],
                El ''div'' ''hybrid-phase-body''
                  [El ''div'' ''hybrid-tabs''
                     [El ''div'' ''hybrid-tab-bar''
                        [El ''button'' ''hybrid-tab-btn active'' [Val (JStr ''m1'')],
                         El ''button'' ''hybrid-tab-btn '' [Val (JStr ''m2'')]],
                      El ''div'' ''hybrid-tab-content''
                        [El ''div'' ''hybrid-model-label'' [Val (JStr ''openrouter/m1'')],
                         El ''div'' ''hybrid-markdown'' [El ''ReactMarkdown'' '''' [Val (JStr ''a1'')]]]]]],
             El ''div'' ''hybrid-phase-block''
               [El ''button'' ''hybrid-phase-header''
                  [El ''span'' ''hybrid-phase-title'' [Val (JStr ''Phase 2: Debate'')],
                   El ''span'' ''hybrid-phase-subtitle'' [Val (JStr ''Models challenge and respond to each other'')],
                   El ''span'' ''hybrid-phase-toggle'' [Val (JStr ''U+25B2'')]],
                El ''div'' ''hybrid-phase-body''
                  [El ''div'' ''hybrid-tabs''
                     [El ''div'' ''hybrid-tab-bar''
                        [El ''button'' ''hybrid-tab-btn active'' [Val (JStr ''m2'')]],
                      El ''div'' ''hybrid-tab-content''
                        [El ''div'' ''hybrid-model-label'' [Val (JStr ''m2'')],
                         El ''div'' ''hybrid-markdown'' [El ''ReactMarkdown'' '''' [Val (JStr ''b2'')]]]]]],
             El ''div'' ''hybrid-phase-block''
               [El ''button'' ''hybrid-phase-header''
                  [El ''span'' ''hybrid-phase-title'' [Val (JStr ''Phase 3: Devil's Advocate'')],
                   El ''span'' ''hybrid-phase-subtitle'' [Val (JStr ''The consensus is challenged head-on'')],
                   El ''span'' ''hybrid-phase-toggle'' [Val (JStr ''U+25B2'')]],
                El ''div'' ''hybrid-phase-body''
                  [El ''div'' ''''
                     [El ''div'' ''hybrid-model-label'' [Val (JStr ''devil'')],
                      El ''div'' ''hybrid-markdown'' [El ''ReactMarkdown'' '''' [Val (JStr ''c'')]]]]],
             El ''div'' ''hybrid-phase-block''
               [El ''button'' ''hybrid-phase-header''
                  [El ''span'' ''hybrid-phase-title'' [Val (JStr ''Phase 4: Final Synthesis'')],
                   El ''span'' ''hybrid-phase-subtitle'' [Val (JStr ''Chairman delivers the definitive answer'')],
                   El ''span'' ''hybrid-phase-toggle'' [Val (JStr ''U+25B2'')]],
                El ''div'' ''hybrid-phase-body''
                  [El ''div'' ''''
                     [El ''div'' ''hybrid-model-label'' [Val (JStr ''chair'')],
                      El ''div'' ''hybrid-markdown'' [El ''ReactMarkdown'' '''' [Val (JStr ''d'')]]]]]]) \<and>
   HybridView (empty_assistant (JStr ''hybrid'')) '''' (\<lambda>k. True) (\<lambda>k. 0) =
     Inr (El ''div'' ''hybrid-view''
            [El ''div'' ''hybrid-header''
               [El ''span'' ''hybrid-badge'' [Val (JStr ''Debate Mode'')],
                El ''span'' ''hybrid-header-sub''
                  [Val (JStr ''Socratic -> Debate -> Devil's Advocate -> Synthesis'')]],
             Val JNull,
             Val JNull,
             Val JNull,
             Val JNull])"
  using C7_hybrid_phase_rendering
    [where msg = sample_hybrid_message and loadingPhase = "''''" and tabState = "\<lambda>k. 0"
       and recsA = "[(JObj [(''model'', JStr ''openrouter/m1''), (''response'', JStr ''a1'')],
                      ''openrouter/m1''),
                     (JObj [(''model'', JStr ''m2''), (''response'', JStr ''a2'')], ''m2'')]"
       and recsB = "[(JObj [(''model'', JStr ''m2''), (''response'', JStr ''b2'')], ''m2'')]"]
    C7_hybrid_phase_rendering
    [where msg = "empty_assistant (JStr ''hybrid'')" and loadingPhase = "''''"
       and openState = "\<lambda>k. True" and tabState = "\<lambda>k. 0"]
  by (simp add: sample_hybrid_message_def empty_assistant_def isEmpty_def tab_label_def
      last_segment_def PHASE_CONFIG_def Let_def)

section \<open>The mode selector\<close>

text \<open>
  C8, as the code has it. With no assistant message the selector is unlocked and a click
  sets the mode. Otherwise the first assistant message decides: when its \<^verbatim>\<open>mode\<close> is
  truthy the selector is locked to it; when not, and one of \<^verbatim>\<open>stage1\<close>, \<^verbatim>\<open>stage2\<close>,
  \<^verbatim>\<open>stage3\<close> is truthy (an empty array is), it is locked to \<^verbatim>\<open>'council'\<close>; a locked
  selector ignores a click, and the effect sets the mode to the locked one. When none of
  the four fields is truthy, \<^verbatim>\<open>conversationMode\<close> is \<^verbatim>\<open>null\<close> and the selector is unlocked,
  although the conversation has an assistant message.
\<close>

theorem C8_mode_lock:
  "(find (\<lambda>m. role m = JStr ''assistant'') msgs = None \<longrightarrow>
      \<not> isLocked msgs \<and> click_mode msgs m ui = ui\<lparr>mode := m\<rparr>) \<and>
   (\<forall>firstAssistant. find (\<lambda>m. role m = JStr ''assistant'') msgs = Some firstAssistant \<longrightarrow>
      (truthy (message.mode firstAssistant) \<longrightarrow>
         isLocked msgs \<and> conversationMode msgs = message.mode firstAssistant \<and>
         click_mode msgs m ui = ui \<and>
         mode (mode_effect msgs ui) = message.mode firstAssistant) \<and>
      (\<not> truthy (message.mode firstAssistant) \<and>
       (truthy (stage1 firstAssistant) \<or> truthy (stage2 firstAssistant) \<or>
        truthy (stage3 firstAssistant)) \<longrightarrow>
         isLocked msgs \<and> conversationMode msgs = JStr ''council'' \<and>
         click_mode msgs m ui = ui \<and>
         mode (mode_effect msgs ui) = JStr ''council'') \<and>
      (\<not> truthy (message.mode firstAssistant) \<and>
       (stage1 firstAssistant = JArr [] \<or> stage2 firstAssistant = JArr [] \<or>
        stage3 firstAssistant = JArr []) \<longrightarrow>
         isLocked msgs \<and> conversationMode msgs = JStr ''council'') \<and>
      (\<not> truthy (message.mode firstAssistant) \<and> \<not> truthy (stage1 firstAssistant) \<and>
       \<not> truthy (stage2 firstAssistant) \<and> \<not> truthy (stage3 firstAssistant) \<longrightarrow>
         \<not> isLocked msgs \<and> click_mode msgs m ui = ui\<lparr>mode := m\<rparr>))"
proof (intro conjI impI allI)
  assume "find (\<lambda>m. role m = JStr ''assistant'') msgs = None"
  then show "\<not> isLocked msgs" "click_mode msgs m ui = ui\<lparr>mode := m\<rparr>"
    by (simp_all add: click_mode_def isLocked_def conversationMode_def)
next
  fix fa
  assume f: "find (\<lambda>m. role m = JStr ''assistant'') msgs = Some fa"
  {
    assume t: "truthy (message.mode fa)"
    then have nn: "message.mode fa \<noteq> JNull" by auto
    from f t show "conversationMode msgs = message.mode fa"
      by (simp add: conversationMode_def)
    with nn show "isLocked msgs" by (simp add: isLocked_def)
    then show "click_mode msgs m ui = ui" by (simp add: click_mode_def)
    from f t show "mode (mode_effect msgs ui) = message.mode fa"
      by (simp add: mode_effect_def conversationMode_def)
  }
  {
    assume t: "\<not> truthy (message.mode fa) \<and>
       (truthy (stage1 fa) \<or> truthy (stage2 fa) \<or> truthy (stage3 fa))"
    with f show c: "conversationMode msgs = JStr ''council''"
      by (auto simp: conversationMode_def)
    then show l: "isLocked msgs" by (simp add: isLocked_def)
    then show "click_mode msgs m ui = ui" by (simp add: click_mode_def)
    from c show "mode (mode_effect msgs ui) = JStr ''council''"
      by (simp add: mode_effect_def)
  }
  {
    assume t: "\<not> truthy (message.mode fa) \<and>
       (stage1 fa = JArr [] \<or> stage2 fa = JArr [] \<or> stage3 fa = JArr [])"
    with f show c: "conversationMode msgs = JStr ''council''"
      by (auto simp: conversationMode_def)
    then show "isLocked msgs" by (simp add: isLocked_def)
  }
  {
    assume t: "\<not> truthy (message.mode fa) \<and> \<not> truthy (stage1 fa) \<and>
       \<not> truthy (stage2 fa) \<and> \<not> truthy (stage3 fa)"
    with f show l: "\<not> isLocked msgs"
      by (simp add: isLocked_def conversationMode_def)
    then show "click_mode msgs m ui = ui\<lparr>mode := m\<rparr>" by (simp add: click_mode_def)
  }
qed

theorem C8_witness:
  "isLocked [user_message (JStr ''hi''), empty_assistant (JStr ''hybrid'')] \<and>
   click_mode [user_message (JStr ''hi''), empty_assistant (JStr ''hybrid'')] (JStr ''council'')
     (ui0\<lparr>mode := JStr ''hybrid''\<rparr>) = ui0\<lparr>mode := JStr ''hybrid''\<rparr> \<and>
   mode (mode_effect [user_message (JStr ''hi''), empty_assistant (JStr ''hybrid'')] ui0) =
     JStr ''hybrid''"
  using C8_mode_lock
    [of "[user_message (JStr ''hi''), empty_assistant (JStr ''hybrid'')]" "JStr ''council''"
        "ui0\<lparr>mode := JStr ''hybrid''\<rparr>"]
    C8_mode_lock
    [of "[user_message (JStr ''hi''), empty_assistant (JStr ''hybrid'')]" "JStr ''council''" ui0]
  by (simp add: user_message_def empty_assistant_def)

text \<open>
  C8 as stated fails for a conversation whose first assistant message has no \<^verbatim>\<open>mode\<close>
  and no stage field, here one that carries hybrid fields only: the selector is unlocked
  and a click changes the mode.
\<close>

theorem C8_counterexample:
  "role legacy_hybrid_message = JStr ''assistant'' \<and>
   \<not> isLocked [user_message (JStr ''hi''), legacy_hybrid_message] \<and>
   mode ui0 = JStr ''council'' \<and>
   mode (click_mode [user_message (JStr ''hi''), legacy_hybrid_message] (JStr ''hybrid'') ui0) =
     JStr ''hybrid''"
  by (simp add: user_message_def legacy_hybrid_message_def isLocked_def conversationMode_def
      click_mode_def ui0_def)

section \<open>Submitting the form\<close>

lemma trim_spaces:
  assumes "\<forall>c \<in> set s. is_space c"
  shows "trim s = []"
proof -
  from assms have d: "dropWhile is_space s = []" by simp
  show ?thesis unfolding trim_def d by simp
qed

text \<open>
  C10. When the input is empty or holds white space only, or while \<^verbatim>\<open>isLoading\<close> is
  true, \<^verbatim>\<open>handleSubmit\<close> returns at line 70: whatever the callback \<open>onSendMessage\<close> is,
  the state of \<^verbatim>\<open>App\<close> and the state of the component are unchanged (the callback is not
  called), and the submit button is disabled.
\<close>

theorem C10_no_send_on_blank_or_loading:
  "(\<forall>c \<in> set (input ui). is_space c) \<or> isLoading ui \<longrightarrow>
     handleSubmit onSendMessage (ui, app) = (ui, app) \<and> submit_disabled ui"
proof
  assume "(\<forall>c \<in> set (input ui). is_space c) \<or> isLoading ui"
  then have "\<not> truthy (JStr (trim (input ui))) \<or> isLoading ui"
    using trim_spaces[of "input ui"] by auto
  then show "handleSubmit onSendMessage (ui, app) = (ui, app) \<and> submit_disabled ui"
    by (auto simp: handleSubmit_def submit_disabled_def)
qed

theorem C10_witness:
  \<open>handleSubmit
     (handleSendMessage sample_parse
        (Inr [''data: {"type":"stage1_complete","data":[{"model":"m1","response":"r1"}]}\<newline>\<newline>''])
        (JStr ''c1''))
     (ui0, (conv0, [])) = (ui0, (conv0, [])) \<and>
   handleSubmit
     (handleSendMessage sample_parse
        (Inr [''data: {"type":"stage1_complete","data":[{"model":"m1","response":"r1"}]}\<newline>\<newline>''])
        (JStr ''c1''))
     (ui0\<lparr>input := ''hi'', isLoading := True\<rparr>, (conv0, [])) =
     (ui0\<lparr>input := ''hi'', isLoading := True\<rparr>, (conv0, []))\<close>
  using C10_no_send_on_blank_or_loading
    [of ui0 \<open>handleSendMessage sample_parse
        (Inr [''data: {"type":"stage1_complete","data":[{"model":"m1","response":"r1"}]}\<newline>\<newline>''])
        (JStr ''c1'')\<close> "(conv0, [])"]
    C10_no_send_on_blank_or_loading
    [of "ui0\<lparr>input := ''hi'', isLoading := True\<rparr>" \<open>handleSendMessage sample_parse
        (Inr [''data: {"type":"stage1_complete","data":[{"model":"m1","response":"r1"}]}\<newline>\<newline>''])
        (JStr ''c1'')\<close> "(conv0, [])"]
  by (simp add: ui0_def is_space_def)

end
